theory Spec2Isabelle
  imports Main
begin

section \<open>Samplers of MAB-VLSI (mab/sampling.py)\<close>

text \<open>
  The module is Python 2: \<^verbatim>\<open>map\<close> and \<^verbatim>\<open>zip\<close> return lists, so every
  \<^verbatim>\<open>get_samples\<close> returns a list that is built before the call returns.
  Exceptions are values of \<open>error\<close>; a call that can raise returns \<open>error + 'a\<close>,
  with \<open>Inl\<close> for the exception.
\<close>

datatype error =
    NotImplementedError string
  | KeyError string
  | IOError string
  | ValueError string

subsection \<open>Sample and Sampler\<close>

text \<open>
  Modelled from the spec: \<^verbatim>\<open>utils.Sample\<close> is imported by sampling.py and is not part
  of the source at hand. The spec describes its constructor as taking the attribute
  mapping, the metric function and the validity function; the record keeps the three.
\<close>

record ('v, 'm) Sample =
  attributes :: "string \<rightharpoonup> 'v"
  metric_function :: "(string \<rightharpoonup> 'v) \<Rightarrow> 'm"
  valid_function :: "(string \<rightharpoonup> 'v) \<Rightarrow> bool"

record ('v, 'm) Sampler =
  attribute_names :: "string list"
  metric_function :: "(string \<rightharpoonup> 'v) \<Rightarrow> 'm"
  valid_function :: "(string \<rightharpoonup> 'v) \<Rightarrow> bool"
  constants :: "string \<rightharpoonup> 'v"

text \<open>\<^verbatim>\<open>dict(pairs)\<close>: the pairs are stored from left to right, a later pair replacing an
  earlier one with the same key.\<close>

definition store :: "'k \<times> 'v \<Rightarrow> ('k \<rightharpoonup> 'v) \<Rightarrow> ('k \<rightharpoonup> 'v)" where
  "store p m = m(fst p \<mapsto> snd p)"

definition dict :: "('k \<times> 'v) list \<Rightarrow> ('k \<rightharpoonup> 'v)" where
  "dict pairs = fold store pairs Map.empty"

text \<open>\<^verbatim>\<open>d.update(other)\<close>: every key of \<open>other\<close> is stored into \<open>d\<close>.\<close>

definition update :: "('k \<rightharpoonup> 'v) \<Rightarrow> ('k \<rightharpoonup> 'v) \<Rightarrow> ('k \<rightharpoonup> 'v)" where
  "update d other = d ++ other"

text \<open>
  \<^verbatim>\<open>
  def make_sample(self, attribute_values):
      attributes = dict(zip(self.attribute_names, attribute_values))
      attributes.update(self.constants)
      return Sample(attributes, self.metric_function, self.valid_function)
  \<close>
  \<open>zip\<close> of HOL stops at the shorter list, as Python's does.
\<close>

definition make_sample :: "('v, 'm, 'z) Sampler_scheme \<Rightarrow> 'v list \<Rightarrow> ('v, 'm) Sample" where
  "make_sample self attribute_values =
     (let attributes = dict (zip (attribute_names self) attribute_values);
          attributes = update attributes (constants self)
      in \<lparr> attributes = attributes,
           metric_function = Sampler.metric_function self,
           valid_function = Sampler.valid_function self \<rparr>)"


subsection \<open>The world outside the samplers\<close>

text \<open>
  What a call of \<^verbatim>\<open>get_samples\<close> can observe or change: the state of numpy's global
  random generator, the files, the paths that can be opened for writing, and the sequence
  of effects performed so far (calls of the noise model, file writes, runs of the shell,
  file reads, warnings sent to a logger). Opening a path for writing raises IOError when
  the path cannot be written (a missing directory, no permission) and creates or truncates
  the file otherwise; opening a missing file for reading raises IOError.
\<close>

datatype event =
    NoiseModelCall int
  | FileWrite string
  | ProcessCall string
  | FileRead string
  | LogWarning string string

record 'r world =
  rng :: 'r
  files :: "string \<rightharpoonup> string"
  writable :: "string \<Rightarrow> bool"
  events :: "event list"

text \<open>
  The library functions the module imports, taken as parameters: numpy's
  \<^verbatim>\<open>random.multivariate_normal\<close>, scipy's \<^verbatim>\<open>gaussian_kde\<close> and its \<^verbatim>\<open>resample\<close>
  (as \<^verbatim>\<open>kde.resample(count).tolist()[0]\<close>), the formatting \<^verbatim>\<open>'%1.5f' % x\<close> used by
  \<^verbatim>\<open>savetxt\<close>, the builtin \<^verbatim>\<open>float\<close> on a string (\<open>None\<close> where it raises ValueError),
  and the shell of \<^verbatim>\<open>subprocess.call(cmd, shell = True)\<close>, which changes the files and
  returns an exit status. The random functions read and advance the generator state.
\<close>

record ('v, 'k, 'd, 'r) library =
  multivariate_normal :: "'v list \<Rightarrow> 'v list list \<Rightarrow> int \<Rightarrow> 'r \<Rightarrow> (error + 'v list list) \<times> 'r"
  gaussian_kde :: "'d \<Rightarrow> error + 'k"
  resample :: "'k \<Rightarrow> int \<Rightarrow> 'r \<Rightarrow> (error + 'v list) \<times> 'r"
  fmt :: "'v \<Rightarrow> string"
  float :: "string \<Rightarrow> 'v option"
  shell :: "string \<Rightarrow> (string \<rightharpoonup> string) \<Rightarrow> (string \<rightharpoonup> string) \<times> int"

subsection \<open>Sampler.get_samples\<close>

text \<open>\<^verbatim>\<open>raise NotImplementedError('Get samples not implemented')\<close>\<close>

definition Sampler_get_samples ::
  "('v, 'm, 'z) Sampler_scheme \<Rightarrow> int \<Rightarrow> 'r world \<Rightarrow> (error + ('v, 'm) Sample list) \<times> 'r world" where
  "Sampler_get_samples self count w = (Inl (NotImplementedError ''Get samples not implemented''), w)"

subsection \<open>GaussianSampler\<close>

record ('v, 'm) GaussianSampler = "('v, 'm) Sampler" +
  attribute_means :: "'v list"
  attribute_stds :: "'v list"

text \<open>\<^verbatim>\<open>np.diag(v)\<close>: the square matrix with \<open>v\<close> on the diagonal and zero elsewhere.\<close>

definition diag :: "'v::zero list \<Rightarrow> 'v list list" where
  "diag v = map (\<lambda>i. map (\<lambda>j. if i = j then v ! i else 0) [0..<length v]) [0..<length v]"

text \<open>\<^verbatim>\<open>m**2\<close> on an array: every entry squared.\<close>

definition squared :: "'v::times list list \<Rightarrow> 'v list list" where
  "squared m = map (map (\<lambda>x. x * x)) m"

text \<open>
  \<^verbatim>\<open>
  def get_samples(self, count):
      if count == 0:
          return []
      samples = np.random.multivariate_normal(self.attribute_means,
                                              np.diag(self.attribute_stds)**2, int(count))
      return map(self.make_sample, samples)
  \<close>
\<close>

definition Gaussian_get_samples ::
  "('v::{zero,times}, 'k, 'd, 'r) library \<Rightarrow> ('v, 'm, 'z) GaussianSampler_scheme \<Rightarrow> int \<Rightarrow> 'r world
     \<Rightarrow> (error + ('v, 'm) Sample list) \<times> 'r world" where
  "Gaussian_get_samples lib self count w =
     (if count = 0 then (Inr [], w)
      else case multivariate_normal lib (attribute_means self)
                  (squared (diag (attribute_stds self))) count (rng w) of
             (Inl e, r) \<Rightarrow> (Inl e, w\<lparr>rng := r\<rparr>)
           | (Inr samples, r) \<Rightarrow> (Inr (map (make_sample self) samples), w\<lparr>rng := r\<rparr>))"

subsection \<open>KdeSampler\<close>

record ('v, 'm, 'k) KdeSampler = "('v, 'm) Sampler" +
  kde_estimates :: "string \<rightharpoonup> 'k"

text \<open>
  \<^verbatim>\<open>
  self.kde_estimates = dict([(name, gaussian_kde(data))
                             for name, data in attribute_data.items() if name not in constants])
  \<close>
  \<open>attribute_data\<close> is given as the list of its items.
\<close>

fun fit_estimates ::
  "('v, 'k, 'd, 'r) library \<Rightarrow> (string \<rightharpoonup> 'v) \<Rightarrow> (string \<times> 'd) list \<Rightarrow> error + (string \<times> 'k) list" where
  "fit_estimates lib fixed [] = Inr []"
| "fit_estimates lib fixed ((name, data) # items) =
     (if fixed name \<noteq> None then fit_estimates lib fixed items
      else case gaussian_kde lib data of
             Inl e \<Rightarrow> Inl e
           | Inr kde \<Rightarrow> (case fit_estimates lib fixed items of
                          Inl e \<Rightarrow> Inl e
                        | Inr fitted \<Rightarrow> Inr ((name, kde) # fitted)))"

definition KdeSampler_init ::
  "('v, 'k, 'd, 'r) library \<Rightarrow> string list \<Rightarrow> ((string \<rightharpoonup> 'v) \<Rightarrow> 'm) \<Rightarrow> ((string \<rightharpoonup> 'v) \<Rightarrow> bool)
     \<Rightarrow> (string \<rightharpoonup> 'v) \<Rightarrow> (string \<times> 'd) list \<Rightarrow> error + ('v, 'm, 'k) KdeSampler" where
  "KdeSampler_init lib names metric valid fixed attribute_data =
     (case fit_estimates lib fixed attribute_data of
        Inl e \<Rightarrow> Inl e
      | Inr fitted \<Rightarrow>
          Inr \<lparr> attribute_names = names, metric_function = metric,
                valid_function = valid, constants = fixed,
                kde_estimates = dict fitted \<rparr>)"

text \<open>
  The loop of \<^verbatim>\<open>get_samples\<close>; \<open>data\<close> is the list built so far:
  \<^verbatim>\<open>
  for name in self.attribute_names:
      if name in self.constants:
          data.append(count*[self.constants[name]])
      data.append(self.kde_estimates[name].resample(count).tolist()[0])
  \<close>
  The second \<^verbatim>\<open>append\<close> is not under an \<^verbatim>\<open>else\<close>: it runs for every name, and the
  lookup in \<^verbatim>\<open>kde_estimates\<close> raises KeyError for a name that has no estimate.
\<close>

fun Kde_collect ::
  "('v, 'k, 'd, 'r) library \<Rightarrow> ('v, 'm, 'k, 'z) KdeSampler_scheme \<Rightarrow> int \<Rightarrow> string list
     \<Rightarrow> 'v list list \<Rightarrow> 'r \<Rightarrow> (error + 'v list list) \<times> 'r" where
  "Kde_collect lib self count [] data r = (Inr data, r)"
| "Kde_collect lib self count (name # names) data r =
     (let data = (case constants self name of
                    Some c \<Rightarrow> data @ [replicate (nat count) c]
                  | None \<Rightarrow> data)
      in case kde_estimates self name of
           None \<Rightarrow> (Inl (KeyError name), r)
         | Some kde \<Rightarrow>
             (case resample lib kde count r of
                (Inl e, r') \<Rightarrow> (Inl e, r')
              | (Inr drawn, r') \<Rightarrow> Kde_collect lib self count names (data @ [drawn]) r'))"

text \<open>\<^verbatim>\<open>zip(*data)\<close>: the rows of the transpose, as many as the shortest list of \<open>data\<close>
  has elements; no row when \<open>data\<close> is empty.\<close>

definition zip_star :: "'a list list \<Rightarrow> 'a list list" where
  "zip_star data =
     (case data of
        [] \<Rightarrow> []
      | column # columns \<Rightarrow>
          map (\<lambda>i. map (\<lambda>c. c ! i) data) [0..<fold min (map length columns) (length column)])"

text \<open>
  \<^verbatim>\<open>
  def get_samples(self, count):
      data = []
      if count == 0:
          return data
      for name in self.attribute_names: ...
      return map(self.make_sample, zip(*data))
  \<close>
\<close>

definition Kde_get_samples ::
  "('v, 'k, 'd, 'r) library \<Rightarrow> ('v, 'm, 'k, 'z) KdeSampler_scheme \<Rightarrow> int \<Rightarrow> 'r world
     \<Rightarrow> (error + ('v, 'm) Sample list) \<times> 'r world" where
  "Kde_get_samples lib self count w =
     (if count = 0 then (Inr [], w)
      else case Kde_collect lib self count (attribute_names self) [] (rng w) of
             (Inl e, r) \<Rightarrow> (Inl e, w\<lparr>rng := r\<rparr>)
           | (Inr data, r) \<Rightarrow> (Inr (map (make_sample self) (zip_star data)), w\<lparr>rng := r\<rparr>))"

subsection \<open>ToolSampler\<close>

text \<open>The noise model is an object of \<^verbatim>\<open>utils.NoiseModel\<close>, given to the constructor;
  the field holds its method \<^verbatim>\<open>add_noise(params, count)\<close>.\<close>

record ('v, 'm, 'r) ToolSampler = "('v, 'm) Sampler" +
  params :: "'v list"
  noise_model :: "'v list \<Rightarrow> int \<Rightarrow> 'r \<Rightarrow> (error + 'v list list) \<times> 'r"
  param_buffer :: string
  sample_buffer :: string
  logger :: string
  script_path :: string

definition newline :: char where
  "newline = CHR 0x0A"

text \<open>\<^verbatim>\<open>sep.join(parts)\<close>\<close>

fun join :: "string \<Rightarrow> string list \<Rightarrow> string" where
  "join sep [] = []"
| "join sep [x] = x"
| "join sep (x # y # zs) = x @ sep @ join sep (y # zs)"

text \<open>\<^verbatim>\<open>np.savetxt(f, rows, delimiter = ',', fmt = '%1.5f')\<close>: one line for each row.\<close>

definition savetxt :: "('v, 'k, 'd, 'r) library \<Rightarrow> 'v list list \<Rightarrow> string" where
  "savetxt lib rows = concat (map (\<lambda>row. join '','' (map (fmt lib) row) @ [newline]) rows)"

text \<open>\<^verbatim>\<open>f.readline()\<close>: the text up to the first newline, newline included, and what is
  left of the file.\<close>

fun readline :: "string \<Rightarrow> string \<times> string" where
  "readline [] = ([], [])"
| "readline (c # cs) =
     (if c = newline then ([c], cs)
      else case readline cs of (line, rest) \<Rightarrow> (c # line, rest))"

text \<open>\<^verbatim>\<open>for line in f\<close>: the lines left in the file, each with its newline.\<close>

fun file_lines :: "string \<Rightarrow> string list" where
  "file_lines [] = []"
| "file_lines (c # cs) =
     (if c = newline then [c] # file_lines cs
      else case file_lines cs of
             [] \<Rightarrow> [[c]]
           | line # lines \<Rightarrow> (c # line) # lines)"

definition isspace :: "char \<Rightarrow> bool" where
  "isspace c = (c \<in> set [CHR '' '', CHR 0x09, CHR 0x0A, CHR 0x0B, CHR 0x0C, CHR 0x0D])"

text \<open>\<^verbatim>\<open>s.rstrip()\<close>\<close>

definition rstrip :: "string \<Rightarrow> string" where
  "rstrip s = rev (dropWhile isspace (rev s))"

text \<open>\<^verbatim>\<open>s.split(',')\<close>: the fields between the commas; one empty field for the empty string.\<close>

fun str_split :: "string \<Rightarrow> string list" where
  "str_split [] = [[]]"
| "str_split (c # cs) =
     (if c = CHR '','' then [] # str_split cs
      else case str_split cs of
             [] \<Rightarrow> [[c]]
           | part # parts \<Rightarrow> (c # part) # parts)"

text \<open>\<^verbatim>\<open>map(float, fields)\<close>: the first field that is not a number raises ValueError, whose
  message holds the text of the field.\<close>

fun map_float :: "('v, 'k, 'd, 'r) library \<Rightarrow> string list \<Rightarrow> error + 'v list" where
  "map_float lib [] = Inr []"
| "map_float lib (part # parts) =
     (case float lib part of
        None \<Rightarrow> Inl (ValueError part)
      | Some x \<Rightarrow> (case map_float lib parts of Inl e \<Rightarrow> Inl e | Inr xs \<Rightarrow> Inr (x # xs)))"

text \<open>\<^verbatim>\<open>for line in f: values.append(map(float, line.split(',')))\<close>\<close>

fun read_rows :: "('v, 'k, 'd, 'r) library \<Rightarrow> string list \<Rightarrow> error + 'v list list" where
  "read_rows lib [] = Inr []"
| "read_rows lib (line # lines) =
     (case map_float lib (str_split line) of
        Inl e \<Rightarrow> Inl e
      | Inr row \<Rightarrow> (case read_rows lib lines of Inl e \<Rightarrow> Inl e | Inr rows \<Rightarrow> Inr (row # rows)))"

definition mismatch_warning :: string where
  "mismatch_warning = ''Attribute name mismatch encountered in buffer: trying to ignore''"

text \<open>
  \<^verbatim>\<open>
  def get_samples(self, count):
      if count == 0:
          return []
      parameter_values = self.noise_model.add_noise(self.params, count)
      with open(self.param_buffer,"w+") as f:
          np.savetxt(f, parameter_values, delimiter = ',', fmt = '%1.5f')
      subprocess.call('source ' + self.script_path, shell = True)
      values = []
      with open(self.sample_buffer,"r") as f:
          header = f.readline()
          attributes = header.rstrip().split(",")
          if attributes != list(self.attribute_names):
              self.logger.warning('Attribute name mismatch encountered in buffer: trying to ignore')
          for line in f:
              values.append(map(float, line.split(',')))
      return map(self.make_sample,values)
  \<close>
  The value returned by \<^verbatim>\<open>subprocess.call\<close> is dropped. \<^verbatim>\<open>open(self.param_buffer,"w+")\<close>
  raises IOError for a path that cannot be written, before anything is written or run.
\<close>

definition Tool_get_samples ::
  "('v, 'k, 'd, 'r) library \<Rightarrow> ('v, 'm, 'r, 'z) ToolSampler_scheme \<Rightarrow> int \<Rightarrow> 'r world
     \<Rightarrow> (error + ('v, 'm) Sample list) \<times> 'r world" where
  "Tool_get_samples lib self count w =
     (if count = 0 then (Inr [], w)
      else case noise_model self (params self) count (rng w) of
        (Inl e, r) \<Rightarrow> (Inl e, w\<lparr>rng := r, events := events w @ [NoiseModelCall count]\<rparr>)
      | (Inr parameter_values, r) \<Rightarrow>
          (let w1 = w\<lparr>rng := r, events := events w @ [NoiseModelCall count]\<rparr>
           in if \<not> writable w1 (param_buffer self)
              then (Inl (IOError (param_buffer self)), w1)
              else
          (let w2 = w1\<lparr>files := (files w1)(param_buffer self \<mapsto> savetxt lib parameter_values),
                       events := events w1 @ [FileWrite (param_buffer self)]\<rparr>;
               cmd = ''source '' @ script_path self;
               ran = shell lib cmd (files w2);
               w3 = w2\<lparr>files := fst ran, events := events w2 @ [ProcessCall cmd]\<rparr>
           in case files w3 (sample_buffer self) of
                None \<Rightarrow> (Inl (IOError (sample_buffer self)), w3)
              | Some content \<Rightarrow>
                  (let w4 = w3\<lparr>events := events w3 @ [FileRead (sample_buffer self)]\<rparr>;
                       header = fst (readline content);
                       attributes = str_split (rstrip header);
                       w5 = (if attributes \<noteq> attribute_names self
                             then w4\<lparr>events := events w4 @ [LogWarning (logger self) mismatch_warning]\<rparr>
                             else w4)
                   in case read_rows lib (file_lines (snd (readline content))) of
                        Inl e \<Rightarrow> (Inl e, w5)
                      | Inr values \<Rightarrow> (Inr (map (make_sample self) values), w5)))))"

subsection \<open>SamplerSet\<close>

text \<open>The objects a SamplerSet wraps: instances of the base class or of one of its three
  subclasses; \<open>get_samples\<close> is the method call \<^verbatim>\<open>s.get_samples(c)\<close>.\<close>

datatype ('v, 'm, 'k, 'r) sampler =
    Base "('v, 'm) Sampler"
  | Gaussian "('v, 'm) GaussianSampler"
  | Kde "('v, 'm, 'k) KdeSampler"
  | Tool "('v, 'm, 'r) ToolSampler"

fun get_samples ::
  "('v::{zero,times}, 'k, 'd, 'r) library \<Rightarrow> ('v, 'm, 'k, 'r) sampler \<Rightarrow> int \<Rightarrow> 'r world
     \<Rightarrow> (error + ('v, 'm) Sample list) \<times> 'r world" where
  "get_samples lib (Base s) count w = Sampler_get_samples s count w"
| "get_samples lib (Gaussian s) count w = Gaussian_get_samples lib s count w"
| "get_samples lib (Kde s) count w = Kde_get_samples lib s count w"
| "get_samples lib (Tool s) count w = Tool_get_samples lib s count w"

record ('v, 'm, 'k, 'r) SamplerSet =
  samplers :: "('v, 'm, 'k, 'r) sampler list"

text \<open>
  \<^verbatim>\<open>[s.get_samples(c) for s, c in zip(self.samplers, sample_counts)]\<close>: the pairs are
  visited from left to right, each call in the world the call before it left; the first
  exception ends the comprehension.
\<close>

fun comprehension ::
  "('v::{zero,times}, 'k, 'd, 'r) library \<Rightarrow> (('v, 'm, 'k, 'r) sampler \<times> int) list \<Rightarrow> 'r world
     \<Rightarrow> (error + ('v, 'm) Sample list list) \<times> 'r world" where
  "comprehension lib [] w = (Inr [], w)"
| "comprehension lib ((s, c) # pairs) w =
     (case get_samples lib s c w of
        (Inl e, w') \<Rightarrow> (Inl e, w')
      | (Inr batch, w') \<Rightarrow>
          (case comprehension lib pairs w' of
             (Inl e, w'') \<Rightarrow> (Inl e, w'')
           | (Inr batches, w'') \<Rightarrow> (Inr (batch # batches), w'')))"

definition SamplerSet_get_samples ::
  "('v::{zero,times}, 'k, 'd, 'r) library \<Rightarrow> ('v, 'm, 'k, 'r) SamplerSet \<Rightarrow> int list \<Rightarrow> 'r world
     \<Rightarrow> (error + ('v, 'm) Sample list list) \<times> 'r world" where
  "SamplerSet_get_samples lib self sample_counts w =
     comprehension lib (zip (samplers self) sample_counts) w"

definition SamplerSet_len :: "('v, 'm, 'k, 'r) SamplerSet \<Rightarrow> nat" where
  "SamplerSet_len self = length (samplers self)"

text \<open>The world in which the \<open>i\<close>-th sampler of a SamplerSet is called when the calls are
  made one after the other from the left: the world the call before it left.\<close>

fun world_before ::
  "('v::{zero,times}, 'k, 'd, 'r) library \<Rightarrow> ('v, 'm, 'k, 'r) sampler list \<Rightarrow> int list \<Rightarrow> 'r world
     \<Rightarrow> nat \<Rightarrow> 'r world" where
  "world_before lib ss cs w 0 = w"
| "world_before lib ss cs w (Suc i) =
     snd (get_samples lib (ss ! i) (cs ! i) (world_before lib ss cs w i))"

subsection \<open>Concrete samplers and a concrete library\<close>

text \<open>
  Instances on which the definitions are evaluated. Values are integers; the stand-in for
  \<^verbatim>\<open>float\<close> reads an unsigned decimal numeral between optional white space and rejects
  every other text, the random functions repeat a fixed value and count their calls in
  the generator state, and the shell is a parameter.
\<close>

fun digit :: "char \<Rightarrow> int option" where
  "digit c =
     (if c = CHR ''0'' then Some 0 else if c = CHR ''1'' then Some 1
      else if c = CHR ''2'' then Some 2 else if c = CHR ''3'' then Some 3
      else if c = CHR ''4'' then Some 4 else if c = CHR ''5'' then Some 5
      else if c = CHR ''6'' then Some 6 else if c = CHR ''7'' then Some 7
      else if c = CHR ''8'' then Some 8 else if c = CHR ''9'' then Some 9
      else None)"

fun digits :: "int \<Rightarrow> string \<Rightarrow> int option" where
  "digits acc [] = Some acc"
| "digits acc (c # cs) =
     (case digit c of None \<Rightarrow> None | Some d \<Rightarrow> digits (10 * acc + d) cs)"

definition example_float :: "string \<Rightarrow> int option" where
  "example_float s =
     (let t = rstrip (dropWhile isspace s) in if t = [] then None else digits 0 t)"

definition example_library ::
  "(string \<Rightarrow> (string \<rightharpoonup> string) \<Rightarrow> (string \<rightharpoonup> string) \<times> int)
     \<Rightarrow> (int, int list, int list, nat) library" where
  "example_library sh =
     \<lparr> multivariate_normal = (\<lambda>mean cov size r. (Inr (replicate (nat size) mean), Suc r)),
       gaussian_kde = (\<lambda>data. Inr data),
       resample = (\<lambda>kde size r.
          (Inr (replicate (nat size) (case kde of [] \<Rightarrow> 0 | x # _ \<Rightarrow> x)), Suc r)),
       fmt = (\<lambda>x. ''0.00000''),
       float = example_float,
       shell = sh \<rparr>"

text \<open>A script that leaves the files as they are, and one that writes a file; both end
  with the given exit status.\<close>

definition tool_fails :: "int \<Rightarrow> string \<Rightarrow> (string \<rightharpoonup> string) \<Rightarrow> (string \<rightharpoonup> string) \<times> int" where
  "tool_fails status cmd fs = (fs, status)"

definition tool_writes ::
  "string \<Rightarrow> string \<Rightarrow> int \<Rightarrow> string \<Rightarrow> (string \<rightharpoonup> string) \<Rightarrow> (string \<rightharpoonup> string) \<times> int" where
  "tool_writes path content status cmd fs = (fs(path \<mapsto> content), status)"

definition example_world :: "nat world" where
  "example_world = \<lparr> rng = 0, files = Map.empty, writable = (\<lambda>path. True), events = [] \<rparr>"

text \<open>The same world with no path that can be written.\<close>

definition read_only_world :: "nat world" where
  "read_only_world = \<lparr> rng = 0, files = Map.empty, writable = (\<lambda>path. False), events = [] \<rparr>"

definition example_sampler :: "(int, int) Sampler" where
  "example_sampler =
     \<lparr> attribute_names = [''a'', ''b''], metric_function = (\<lambda>attrs. 0),
       valid_function = (\<lambda>attrs. True), constants = [''c'' \<mapsto> 5] \<rparr>"

definition repeated_sampler :: "(int, int) Sampler" where
  "repeated_sampler =
     \<lparr> attribute_names = [''a'', ''b'', ''a''], metric_function = (\<lambda>attrs. 0),
       valid_function = (\<lambda>attrs. True), constants = Map.empty \<rparr>"

definition example_gaussian :: "(int, int) GaussianSampler" where
  "example_gaussian =
     \<lparr> attribute_names = [''a'', ''b''], metric_function = (\<lambda>attrs. 0),
       valid_function = (\<lambda>attrs. True), constants = [''c'' \<mapsto> 5],
       attribute_means = [10, 20], attribute_stds = [2, 3] \<rparr>"

definition example_kde :: "(int, int, int list) KdeSampler" where
  "example_kde =
     \<lparr> attribute_names = [''a'', ''b''], metric_function = (\<lambda>attrs. 0),
       valid_function = (\<lambda>attrs. True), constants = [''b'' \<mapsto> 5],
       kde_estimates = dict [(''a'', [1, 2, 3])] \<rparr>"

definition example_tool :: "(int, int, nat) ToolSampler" where
  "example_tool =
     \<lparr> attribute_names = [''a'', ''b''], metric_function = (\<lambda>attrs. 0),
       valid_function = (\<lambda>attrs. True), constants = Map.empty,
       params = [7], noise_model = (\<lambda>ps size r. (Inr (replicate (nat size) ps), Suc r)),
       param_buffer = ''params.csv'', sample_buffer = ''samples.csv'',
       logger = ''Tool Sampler 1'', script_path = ''run.sh'' \<rparr>"

definition example_set :: "(int, int, int list, nat) SamplerSet" where
  "example_set = \<lparr> samplers = [Gaussian example_gaussian] \<rparr>"

definition example_pair_set :: "(int, int, int list, nat) SamplerSet" where
  "example_pair_set = \<lparr> samplers = [Gaussian example_gaussian, Gaussian example_gaussian] \<rparr>"

text \<open>Sample buffers: a header alone; a header that names other attributes, with one row;
  the header of the example sampler with one row;
  two buffers with the same rows in a different order, one row holding the text \<open>x\<close>.\<close>

definition header_only :: string where
  "header_only = ''a,b'' @ [newline]"


definition one_row :: string where
  "one_row = ''a,b'' @ [newline] @ ''1,2'' @ [newline]"

definition bad_first_row :: string where
  "bad_first_row = ''a,b'' @ [newline] @ ''x,1'' @ [newline] @ ''2,3'' @ [newline]"

definition bad_second_row :: string where
  "bad_second_row = ''a,b'' @ [newline] @ ''2,3'' @ [newline] @ ''x,1'' @ [newline]"

subsection \<open>Facts about dictionaries built from pairs\<close>

lemma fold_store:
  "fold store pairs m0 = m0 ++ map_of (rev pairs)"
proof (induction pairs arbitrary: m0)
  case Nil
  show ?case by simp
next
  case (Cons p ps)
  have a: "m0(fst p \<mapsto> snd p) ++ map_of (rev ps) = m0 ++ (map_of [p] ++ map_of (rev ps))"
    by (rule ext) (cases p, simp add: map_add_def split: option.splits)
  have "fold store (p # ps) m0 = fold store ps (store p m0)" by simp
  also have "\<dots> = store p m0 ++ map_of (rev ps)" by (rule Cons.IH)
  also have "\<dots> = m0 ++ (map_of [p] ++ map_of (rev ps))" using a by (simp only: store_def)
  also have "\<dots> = m0 ++ map_of (rev (p # ps))" by simp
  finally show ?case .
qed

lemma dict_map_of: "dict pairs = map_of (rev pairs)"
  by (simp add: dict_def fold_store)

lemma dict_Cons: "dict ((k, v) # pairs) = [k \<mapsto> v] ++ dict pairs"
  by (simp add: dict_def fold_store store_def)

lemma dom_dict_zip: "dom (dict (zip ks vs)) = set (take (length vs) ks)"
proof -
  have "dom (dict (zip ks vs)) = fst ` set (zip ks vs)"
    by (simp add: dict_map_of dom_map_of_conv_image_fst)
  also have "\<dots> = set (map fst (zip ks vs))" by simp
  also have "map fst (zip ks vs) = take (length vs) ks"
    by (simp add: map_fst_zip_take min_def)
  finally show ?thesis .
qed

lemma dict_zip_last:
  assumes "i < length ks" "i < length vs" "ks ! i \<notin> set (drop (Suc i) (take (length vs) ks))"
  shows "dict (zip ks vs) (ks ! i) = Some (vs ! i)"
  using assms
proof (induction ks arbitrary: vs i)
  case Nil
  then show ?case by simp
next
  case (Cons k ks)
  obtain v vs' where vs: "vs = v # vs'" using Cons.prems(2) by (cases vs) auto
  show ?case
  proof (cases i)
    case 0
    have "k \<notin> dom (dict (zip ks vs'))"
      using Cons.prems(3) by (simp add: 0 vs dom_dict_zip)
    then show ?thesis by (simp add: dict_Cons 0 vs map_add_def domIff split: option.splits)
  next
    case (Suc j)
    have "dict (zip ks vs') (ks ! j) = Some (vs' ! j)"
      using Cons.prems by (intro Cons.IH) (simp_all add: Suc vs)
    then show ?thesis by (simp add: dict_Cons Suc vs map_add_def)
  qed
qed

lemma attributes_make_sample:
  "attributes (make_sample self vs) = dict (zip (attribute_names self) vs) ++ constants self"
  by (simp add: make_sample_def update_def)

lemma zip_take_length: "zip (take (length ys) xs) (take (length xs) ys) = zip xs ys"
proof (induction xs arbitrary: ys)
  case Nil
  show ?case by simp
next
  case (Cons x xs)
  show ?case by (cases ys) (simp_all add: Cons.IH)
qed

section \<open>make_sample\<close>

text \<open>
  C1 (as amended). For every sampler and every value sequence as long as
  \<open>attribute_names\<close>, the attribute mapping of \<open>make_sample values\<close> has the keys
  \<open>attribute_names \<union> constants.keys()\<close>; every name of \<open>constants\<close> is bound to its
  constant, whatever was sampled for it; a name that is no constant is bound to the value at
  the position of its last occurrence in \<open>attribute_names\<close>, which is its own position
  when the name occurs once; the Sample wraps \<open>metric_function\<close> and \<open>valid_function\<close>.
\<close>

theorem make_sample_attributes:
  assumes "length attribute_values = length (attribute_names self)"
  shows "dom (attributes (make_sample self attribute_values))
           = set (attribute_names self) \<union> dom (constants self)
       \<and> (\<forall>k \<in> dom (constants self).
             attributes (make_sample self attribute_values) k = constants self k)
       \<and> (\<forall>i < length (attribute_names self).
             attribute_names self ! i \<notin> dom (constants self)
             \<and> attribute_names self ! i \<notin> set (drop (Suc i) (attribute_names self))
             \<longrightarrow> attributes (make_sample self attribute_values) (attribute_names self ! i)
                   = Some (attribute_values ! i))
       \<and> Sample.metric_function (make_sample self attribute_values) = Sampler.metric_function self
       \<and> Sample.valid_function (make_sample self attribute_values) = Sampler.valid_function self"
proof -
  let ?a = "attributes (make_sample self attribute_values)"
  let ?names = "attribute_names self"
  have eq: "?a = dict (zip ?names attribute_values) ++ constants self"
    by (rule attributes_make_sample)
  have d: "dom ?a = set ?names \<union> dom (constants self)"
    by (simp add: eq dom_dict_zip assms Un_commute)
  have c: "\<forall>k \<in> dom (constants self). ?a k = constants self k"
    by (auto simp: eq map_add_def)
  have p: "\<forall>i < length ?names.
             ?names ! i \<notin> dom (constants self) \<and> ?names ! i \<notin> set (drop (Suc i) ?names)
             \<longrightarrow> ?a (?names ! i) = Some (attribute_values ! i)"
  proof (intro allI impI)
    fix i
    assume i: "i < length ?names"
      and last: "?names ! i \<notin> dom (constants self) \<and> ?names ! i \<notin> set (drop (Suc i) ?names)"
    have "dict (zip ?names attribute_values) (?names ! i) = Some (attribute_values ! i)"
      using i last assms by (intro dict_zip_last) simp_all
    moreover have "constants self (?names ! i) = None"
      using last by (simp add: domIff)
    ultimately show "?a (?names ! i) = Some (attribute_values ! i)"
      by (simp add: eq map_add_def)
  qed
  have m: "Sample.metric_function (make_sample self attribute_values) = Sampler.metric_function self"
    by (simp add: make_sample_def)
  have v: "Sample.valid_function (make_sample self attribute_values) = Sampler.valid_function self"
    by (simp add: make_sample_def)
  show ?thesis by (intro conjI d c p m v)
qed

theorem make_sample_attributes_witness:
  "length [1, 2 :: int] = length (attribute_names example_sampler)
   \<and> dom (attributes (make_sample example_sampler [1, 2])) = {''a'', ''b'', ''c''}
   \<and> attributes (make_sample example_sampler [1, 2]) ''c'' = Some 5
   \<and> attributes (make_sample example_sampler [1, 2]) ''b'' = Some 2"
proof -
  have h: "length [1, 2 :: int] = length (attribute_names example_sampler)"
    by (simp add: example_sampler_def)
  note t = make_sample_attributes [OF h]
  have nm: "attribute_names example_sampler = [''a'', ''b'']"
    and cs: "constants example_sampler = [''c'' \<mapsto> 5]"
    by (simp_all add: example_sampler_def)
  have "dom (attributes (make_sample example_sampler [1, 2]))
          = set (attribute_names example_sampler) \<union> dom (constants example_sampler)"
    using t by (rule conjunct1)
  then have d: "dom (attributes (make_sample example_sampler [1, 2])) = {''a'', ''b'', ''c''}"
    by (auto simp: nm cs)
  have ks: "\<forall>k \<in> dom (constants example_sampler).
              attributes (make_sample example_sampler [1, 2]) k = constants example_sampler k"
    using t [THEN conjunct2] by (rule conjunct1)
  have "''c'' \<in> dom (constants example_sampler)"
    by (simp add: cs)
  with ks have "attributes (make_sample example_sampler [1, 2]) ''c'' = constants example_sampler ''c''"
    by (rule bspec)
  then have c: "attributes (make_sample example_sampler [1, 2]) ''c'' = Some 5"
    by (simp add: cs)
  have ps: "\<forall>i < length (attribute_names example_sampler).
             attribute_names example_sampler ! i \<notin> dom (constants example_sampler)
             \<and> attribute_names example_sampler ! i \<notin> set (drop (Suc i) (attribute_names example_sampler))
             \<longrightarrow> attributes (make_sample example_sampler [1, 2]) (attribute_names example_sampler ! i)
                   = Some ([1, 2] ! i)"
    using t [THEN conjunct2, THEN conjunct2] by (rule conjunct1)
  have "attributes (make_sample example_sampler [1, 2]) (attribute_names example_sampler ! 1)
          = Some ([1, 2] ! 1)"
    by (rule ps [rule_format, of 1]) (simp_all add: nm cs)
  then have b: "attributes (make_sample example_sampler [1, 2]) ''b'' = Some 2"
    by (simp add: nm)
  show ?thesis by (intro conjI h d c b)
qed

text \<open>
  C1 as stated fails for a name that occurs twice: with the names \<open>a, b, a\<close> and the values
  \<open>1, 2, 3\<close> the name at position 0 is not bound to the value at position 0.
\<close>

theorem make_sample_repeated_name_counterexample:
  "length [1, 2, 3 :: int] = length (attribute_names repeated_sampler)
   \<and> attribute_names repeated_sampler ! 0 \<notin> dom (constants repeated_sampler)
   \<and> attributes (make_sample repeated_sampler [1, 2, 3]) (attribute_names repeated_sampler ! 0)
       \<noteq> Some ([1, 2, 3] ! 0)"
  by (simp add: repeated_sampler_def make_sample_def update_def dict_def store_def)

text \<open>
  C10 (as amended). \<open>make_sample\<close> returns a Sample for values of any length: names and
  values are paired up to the shorter of the two, so the result is the one for the first
  \<open>len(values)\<close> names and the first \<open>len(attribute_names)\<close> values. Its keys are the paired
  names and the names of \<open>constants\<close>: a trailing name is left out unless it is a constant
  or is also one of the paired names; surplus values are dropped.
\<close>

theorem make_sample_length_mismatch:
  "make_sample self attribute_values
     = make_sample (self\<lparr>attribute_names := take (length attribute_values) (attribute_names self)\<rparr>)
         (take (length (attribute_names self)) attribute_values)
   \<and> dom (attributes (make_sample self attribute_values))
       = set (take (length attribute_values) (attribute_names self)) \<union> dom (constants self)
   \<and> (\<forall>i < min (length (attribute_names self)) (length attribute_values).
         attribute_names self ! i \<notin> dom (constants self)
         \<and> attribute_names self ! i
             \<notin> set (drop (Suc i) (take (length attribute_values) (attribute_names self)))
         \<longrightarrow> attributes (make_sample self attribute_values) (attribute_names self ! i)
               = Some (attribute_values ! i))"
proof -
  let ?a = "attributes (make_sample self attribute_values)"
  let ?names = "attribute_names self"
  have eq: "?a = dict (zip ?names attribute_values) ++ constants self"
    by (rule attributes_make_sample)
  have t: "make_sample self attribute_values
     = make_sample (self\<lparr>attribute_names := take (length attribute_values) ?names\<rparr>)
         (take (length ?names) attribute_values)"
    by (simp add: make_sample_def zip_take_length)
  have d: "dom ?a = set (take (length attribute_values) ?names) \<union> dom (constants self)"
    by (simp add: eq dom_dict_zip Un_commute)
  have p: "\<forall>i < min (length ?names) (length attribute_values).
         ?names ! i \<notin> dom (constants self)
         \<and> ?names ! i \<notin> set (drop (Suc i) (take (length attribute_values) ?names))
         \<longrightarrow> ?a (?names ! i) = Some (attribute_values ! i)"
  proof (intro allI impI)
    fix i
    assume i: "i < min (length ?names) (length attribute_values)"
      and last: "?names ! i \<notin> dom (constants self)
         \<and> ?names ! i \<notin> set (drop (Suc i) (take (length attribute_values) ?names))"
    have "dict (zip ?names attribute_values) (?names ! i) = Some (attribute_values ! i)"
      using i last by (intro dict_zip_last) simp_all
    moreover have "constants self (?names ! i) = None"
      using last by (simp add: domIff)
    ultimately show "?a (?names ! i) = Some (attribute_values ! i)"
      by (simp add: eq map_add_def)
  qed
  show ?thesis by (intro conjI t d p)
qed

theorem make_sample_length_mismatch_witness:
  "dom (attributes (make_sample example_sampler [1])) = {''a'', ''c''}
   \<and> attributes (make_sample example_sampler [1]) ''a'' = Some 1
   \<and> make_sample example_sampler [1, 2, 3]
       = make_sample (example_sampler\<lparr>attribute_names := [''a'', ''b'']\<rparr>) [1, 2]"
proof -
  note t = make_sample_length_mismatch [of example_sampler "[1]"]
  have nm: "attribute_names example_sampler = [''a'', ''b'']"
    and cs: "constants example_sampler = [''c'' \<mapsto> 5]"
    by (simp_all add: example_sampler_def)
  have "dom (attributes (make_sample example_sampler [1]))
          = set (take (length [1::int]) (attribute_names example_sampler))
            \<union> dom (constants example_sampler)"
    using t [THEN conjunct2] by (rule conjunct1)
  then have d: "dom (attributes (make_sample example_sampler [1])) = {''a'', ''c''}"
    by (auto simp: nm cs)
  have ps: "\<forall>i < min (length (attribute_names example_sampler)) (length [1::int]).
         attribute_names example_sampler ! i \<notin> dom (constants example_sampler)
         \<and> attribute_names example_sampler ! i
             \<notin> set (drop (Suc i) (take (length [1::int]) (attribute_names example_sampler)))
         \<longrightarrow> attributes (make_sample example_sampler [1]) (attribute_names example_sampler ! i)
               = Some ([1] ! i)"
    using t [THEN conjunct2] by (rule conjunct2)
  have "attributes (make_sample example_sampler [1]) (attribute_names example_sampler ! 0)
          = Some ([1] ! 0)"
    by (rule ps [rule_format, of 0]) (simp_all add: nm cs)
  then have a: "attributes (make_sample example_sampler [1]) ''a'' = Some 1"
    by (simp add: nm)
  have "make_sample example_sampler [1, 2, 3]
          = make_sample (example_sampler
               \<lparr>attribute_names := take (length [1, 2, 3 :: int]) (attribute_names example_sampler)\<rparr>)
              (take (length (attribute_names example_sampler)) [1, 2, 3])"
    using make_sample_length_mismatch [of example_sampler "[1, 2, 3]"] by (rule conjunct1)
  then have s: "make_sample example_sampler [1, 2, 3]
       = make_sample (example_sampler\<lparr>attribute_names := [''a'', ''b'']\<rparr>) [1, 2]"
    by (simp only: nm) simp
  show ?thesis by (intro conjI d a s)
qed

text \<open>
  C10 as stated fails for a name that occurs twice: with the names \<open>a, b, a\<close> and the one
  value \<open>1\<close>, the trailing name at position 2 is no constant and is a key of the result.
\<close>

theorem make_sample_trailing_name_counterexample:
  "length [1 :: int] \<le> 2 \<and> 2 < length (attribute_names repeated_sampler)
   \<and> attribute_names repeated_sampler ! 2 \<notin> dom (constants repeated_sampler)
   \<and> attributes (make_sample repeated_sampler [1]) (attribute_names repeated_sampler ! 2) = Some 1"
  by (simp add: repeated_sampler_def make_sample_def update_def dict_def store_def)

section \<open>A request for no sample\<close>

text \<open>
  C4. For a Gaussian, a Kde and a Tool sampler, \<open>get_samples 0\<close> returns the empty list and
  leaves the world as it was: the generator state, the files and the sequence of effects
  are unchanged, so the noise model is not called, \<open>param_buffer\<close> is not written, no
  process is run and \<open>sample_buffer\<close> is not read.
\<close>

theorem get_samples_zero:
  "get_samples lib (Gaussian g) 0 w = (Inr [], w)
   \<and> get_samples lib (Kde k) 0 w = (Inr [], w)
   \<and> get_samples lib (Tool t) 0 w = (Inr [], w)"
  by (simp add: Gaussian_get_samples_def Kde_get_samples_def Tool_get_samples_def)


section \<open>SamplerSet\<close>

lemma world_before_Cons:
  "world_before lib (s # ss) (c # cs) w (Suc i)
     = world_before lib ss cs (snd (get_samples lib s c w)) i"
proof (induction i)
  case 0
  show ?case by simp
next
  case (Suc i)
  have "world_before lib (s # ss) (c # cs) w (Suc (Suc i))
          = snd (get_samples lib ((s # ss) ! Suc i) ((c # cs) ! Suc i)
                   (world_before lib (s # ss) (c # cs) w (Suc i)))"
    by (rule world_before.simps(2))
  also have "\<dots> = snd (get_samples lib (ss ! i) (cs ! i)
                   (world_before lib ss cs (snd (get_samples lib s c w)) i))"
    by (simp only: Suc.IH nth_Cons_Suc)
  also have "\<dots> = world_before lib ss cs (snd (get_samples lib s c w)) (Suc i)"
    by (rule world_before.simps(2) [symmetric])
  finally show ?case .
qed

lemma comprehension_length:
  "fst (comprehension lib pairs w) = Inr out \<Longrightarrow> length out = length pairs"
proof (induction pairs arbitrary: w out)
  case Nil
  then show ?case by simp
next
  case (Cons p pairs)
  obtain s c where p: "p = (s, c)" by (cases p)
  obtain r1 w1 where g: "get_samples lib s c w = (r1, w1)"
    by (cases "get_samples lib s c w")
  obtain r2 w2 where k: "comprehension lib pairs w1 = (r2, w2)"
    by (cases "comprehension lib pairs w1")
  from Cons.prems obtain batch batches
    where r: "r1 = Inr batch" "r2 = Inr batches" "out = batch # batches"
    by (auto simp: p g k split: sum.splits)
  have "length batches = length pairs"
    using Cons.IH [of w1 batches] k r(2) by simp
  then show ?case by (simp add: r(3))
qed

lemma comprehension_in_order:
  assumes "length cs = length ss"
    and "\<forall>i < length ss. \<exists>batch.
           fst (get_samples lib (ss ! i) (cs ! i) (world_before lib ss cs w i)) = Inr batch"
  shows "\<exists>out. fst (comprehension lib (zip ss cs) w) = Inr out \<and> length out = length ss
           \<and> (\<forall>i < length ss.
                 fst (get_samples lib (ss ! i) (cs ! i) (world_before lib ss cs w i))
                   = Inr (out ! i))"
  using assms
proof (induction ss arbitrary: cs w)
  case Nil
  then show ?case by simp
next
  case (Cons s ss)
  obtain c cs' where cs: "cs = c # cs'" using Cons.prems(1) by (cases cs) auto
  have len: "length cs' = length ss" using Cons.prems(1) by (simp add: cs)
  have "0 < length (s # ss)" by simp
  with Cons.prems(2) obtain batch
    where "fst (get_samples lib ((s # ss) ! 0) (cs ! 0) (world_before lib (s # ss) cs w 0))
             = Inr batch"
    by blast
  then have b: "fst (get_samples lib s c w) = Inr batch" by (simp add: cs)
  define w1 where "w1 = snd (get_samples lib s c w)"
  have g: "get_samples lib s c w = (Inr batch, w1)"
    using b by (simp add: w1_def prod_eq_iff)
  have rest: "\<forall>i < length ss. \<exists>batch.
           fst (get_samples lib (ss ! i) (cs' ! i) (world_before lib ss cs' w1 i)) = Inr batch"
  proof (intro allI impI)
    fix i
    assume "i < length ss"
    then have "Suc i < length (s # ss)" by simp
    with Cons.prems(2) obtain bb
      where "fst (get_samples lib ((s # ss) ! Suc i) (cs ! Suc i)
                    (world_before lib (s # ss) cs w (Suc i))) = Inr bb"
      by blast
    then have "fst (get_samples lib (ss ! i) (cs' ! i) (world_before lib ss cs' w1 i)) = Inr bb"
      by (simp only: cs nth_Cons_Suc world_before_Cons w1_def)
    then show "\<exists>batch.
           fst (get_samples lib (ss ! i) (cs' ! i) (world_before lib ss cs' w1 i)) = Inr batch"
      by blast
  qed
  from Cons.IH [OF len rest] obtain out'
    where o1: "fst (comprehension lib (zip ss cs') w1) = Inr out'"
      and o2: "length out' = length ss"
      and o3: "\<forall>i < length ss.
                 fst (get_samples lib (ss ! i) (cs' ! i) (world_before lib ss cs' w1 i))
                   = Inr (out' ! i)"
    by blast
  obtain w2 where k: "comprehension lib (zip ss cs') w1 = (Inr out', w2)"
    using o1 by (cases "comprehension lib (zip ss cs') w1") simp
  have res: "fst (comprehension lib (zip (s # ss) cs) w) = Inr (batch # out')"
    by (simp add: cs g k)
  have lens: "length (batch # out') = length (s # ss)" by (simp add: o2)
  have each: "\<forall>i < length (s # ss).
                 fst (get_samples lib ((s # ss) ! i) (cs ! i) (world_before lib (s # ss) cs w i))
                   = Inr ((batch # out') ! i)"
  proof (intro allI impI)
    fix i
    assume i: "i < length (s # ss)"
    show "fst (get_samples lib ((s # ss) ! i) (cs ! i) (world_before lib (s # ss) cs w i))
            = Inr ((batch # out') ! i)"
    proof (cases i)
      case 0
      then show ?thesis using b by (simp add: cs)
    next
      case (Suc j)
      with i have "j < length ss" by simp
      with o3 have "fst (get_samples lib (ss ! j) (cs' ! j) (world_before lib ss cs' w1 j))
                      = Inr (out' ! j)"
        by blast
      then show ?thesis
        by (simp only: Suc cs nth_Cons_Suc world_before_Cons w1_def)
    qed
  qed
  show ?case by (intro exI [of _ "batch # out'"] conjI res lens each)
qed

text \<open>
  C5. For a SamplerSet of \<open>n\<close> samplers and \<open>n\<close> counts, when every call
  \<open>s_i.get_samples(sample_counts[i])\<close> returns, made in the world that the calls before it
  left, \<open>get_samples\<close> returns a list of length \<open>n\<close> whose \<open>i\<close>-th element is the result of
  that call; so \<open>output[i]\<close> has length \<open>sample_counts[i]\<close> when every sampler returns as
  many samples as it is asked for.
\<close>

theorem SamplerSet_get_samples_positional:
  assumes "length sample_counts = length (samplers self)"
    and "\<forall>i < length (samplers self). \<exists>batch.
           fst (get_samples lib (samplers self ! i) (sample_counts ! i)
                  (world_before lib (samplers self) sample_counts w i)) = Inr batch"
  shows "\<exists>out. fst (SamplerSet_get_samples lib self sample_counts w) = Inr out
           \<and> length out = length (samplers self)
           \<and> (\<forall>i < length (samplers self).
                 fst (get_samples lib (samplers self ! i) (sample_counts ! i)
                        (world_before lib (samplers self) sample_counts w i)) = Inr (out ! i))
           \<and> ((\<forall>i < length (samplers self). \<forall>batch.
                   fst (get_samples lib (samplers self ! i) (sample_counts ! i)
                          (world_before lib (samplers self) sample_counts w i)) = Inr batch
                   \<longrightarrow> length batch = nat (sample_counts ! i))
                \<longrightarrow> (\<forall>i < length (samplers self). length (out ! i) = nat (sample_counts ! i)))"
proof -
  from comprehension_in_order [OF assms] obtain out
    where o1: "fst (comprehension lib (zip (samplers self) sample_counts) w) = Inr out"
      and o2: "length out = length (samplers self)"
      and o3: "\<forall>i < length (samplers self).
                 fst (get_samples lib (samplers self ! i) (sample_counts ! i)
                        (world_before lib (samplers self) sample_counts w i)) = Inr (out ! i)"
    by blast
  have r: "fst (SamplerSet_get_samples lib self sample_counts w) = Inr out"
    using o1 by (simp add: SamplerSet_get_samples_def)
  have l: "(\<forall>i < length (samplers self). \<forall>batch.
                   fst (get_samples lib (samplers self ! i) (sample_counts ! i)
                          (world_before lib (samplers self) sample_counts w i)) = Inr batch
                   \<longrightarrow> length batch = nat (sample_counts ! i))
                \<longrightarrow> (\<forall>i < length (samplers self). length (out ! i) = nat (sample_counts ! i))"
    using o3 by blast
  show ?thesis by (intro exI [of _ out] conjI r o2 o3 l)
qed

theorem SamplerSet_get_samples_positional_witness:
  "length [2, 0 :: int] = length (samplers example_pair_set)
   \<and> (\<exists>out. fst (SamplerSet_get_samples (example_library (tool_fails 0)) example_pair_set [2, 0]
                    example_world) = Inr out
          \<and> length out = 2
          \<and> fst (get_samples (example_library (tool_fails 0)) (Gaussian example_gaussian) 2
                   example_world) = Inr (out ! 0))"
proof -
  let ?lib = "example_library (tool_fails 0)"
  have ss: "samplers example_pair_set = [Gaussian example_gaussian, Gaussian example_gaussian]"
    by (simp add: example_pair_set_def)
  have h1: "length [2, 0 :: int] = length (samplers example_pair_set)"
    by (simp add: ss)
  have h2: "\<forall>i < length (samplers example_pair_set). \<exists>batch.
           fst (get_samples ?lib (samplers example_pair_set ! i) ([2, 0] ! i)
                  (world_before ?lib (samplers example_pair_set) [2, 0] example_world i))
             = Inr batch"
  proof (intro allI impI)
    fix i
    assume "i < length (samplers example_pair_set)"
    then have "i = 0 \<or> i = Suc 0" by (auto simp: ss)
    then show "\<exists>batch.
           fst (get_samples ?lib (samplers example_pair_set ! i) ([2, 0] ! i)
                  (world_before ?lib (samplers example_pair_set) [2, 0] example_world i))
             = Inr batch"
      by (elim disjE) (simp_all add: ss Gaussian_get_samples_def example_library_def)
  qed
  from SamplerSet_get_samples_positional [OF h1 h2] obtain out
    where o1: "fst (SamplerSet_get_samples ?lib example_pair_set [2, 0] example_world) = Inr out"
      and o2: "length out = length (samplers example_pair_set)"
      and o3: "\<forall>i < length (samplers example_pair_set).
                 fst (get_samples ?lib (samplers example_pair_set ! i) ([2, 0] ! i)
                        (world_before ?lib (samplers example_pair_set) [2, 0] example_world i))
                   = Inr (out ! i)"
    by blast
  have l: "length out = 2" using o2 by (simp add: ss)
  have "0 < length (samplers example_pair_set)" by (simp add: ss)
  with o3 have "fst (get_samples ?lib (samplers example_pair_set ! 0) ([2, 0] ! 0)
                        (world_before ?lib (samplers example_pair_set) [2, 0] example_world 0))
                   = Inr (out ! 0)"
    by blast
  then have f: "fst (get_samples ?lib (Gaussian example_gaussian) 2 example_world) = Inr (out ! 0)"
    by (simp add: ss)
  show ?thesis by (intro conjI exI [of _ out] h1 o1 l f)
qed

text \<open>
  C6 (as amended). \<open>get_samples\<close> of a SamplerSet raises no error of its own when the number
  of counts differs from the number of samplers: \<open>zip\<close> pairs them up to the shorter of the
  two and the rest is ignored, so the call behaves as on the first \<open>len(sample_counts)\<close>
  samplers and the first \<open>len(samplers)\<close> counts, and a result has as many elements as the
  shorter sequence.
\<close>

theorem SamplerSet_get_samples_truncates:
  "SamplerSet_get_samples lib self sample_counts w
     = SamplerSet_get_samples lib
         (self\<lparr>samplers := take (length sample_counts) (samplers self)\<rparr>)
         (take (length (samplers self)) sample_counts) w
   \<and> (\<forall>out. fst (SamplerSet_get_samples lib self sample_counts w) = Inr out
         \<longrightarrow> length out = min (length (samplers self)) (length sample_counts))"
proof -
  have t: "SamplerSet_get_samples lib self sample_counts w
     = SamplerSet_get_samples lib
         (self\<lparr>samplers := take (length sample_counts) (samplers self)\<rparr>)
         (take (length (samplers self)) sample_counts) w"
    by (simp add: SamplerSet_get_samples_def zip_take_length)
  have l: "\<forall>out. fst (SamplerSet_get_samples lib self sample_counts w) = Inr out
         \<longrightarrow> length out = min (length (samplers self)) (length sample_counts)"
  proof (intro allI impI)
    fix out
    assume "fst (SamplerSet_get_samples lib self sample_counts w) = Inr out"
    then have "length out = length (zip (samplers self) sample_counts)"
      unfolding SamplerSet_get_samples_def by (rule comprehension_length)
    then show "length out = min (length (samplers self)) (length sample_counts)"
      by simp
  qed
  show ?thesis by (intro conjI t l)
qed

theorem SamplerSet_get_samples_truncates_witness:
  "fst (SamplerSet_get_samples (example_library (tool_fails 0)) example_set [0, 3] example_world)
     = Inr [[]]
   \<and> length [[] :: (int, int) Sample list]
       = min (length (samplers example_set)) (length [0, 3 :: int])"
proof -
  let ?lib = "example_library (tool_fails 0)"
  have r: "fst (SamplerSet_get_samples ?lib example_set [0, 3] example_world) = Inr [[]]"
    by (simp add: SamplerSet_get_samples_def example_set_def Gaussian_get_samples_def)
  have "\<forall>out. fst (SamplerSet_get_samples ?lib example_set [0, 3] example_world) = Inr out
         \<longrightarrow> length out = min (length (samplers example_set)) (length [0, 3 :: int])"
    using SamplerSet_get_samples_truncates [of ?lib example_set "[0, 3]" example_world]
    by (rule conjunct2)
  with r have l: "length [[] :: (int, int) Sample list]
       = min (length (samplers example_set)) (length [0, 3 :: int])"
    by blast
  show ?thesis by (intro conjI r l)
qed

text \<open>
  C6 as stated fails: one sampler and two counts give a result, not an error.
\<close>

theorem SamplerSet_length_mismatch_counterexample:
  "length [0, 3 :: int] \<noteq> length (samplers example_set)
   \<and> SamplerSet_get_samples (example_library (tool_fails 0)) example_set [0, 3] example_world
       = (Inr [[]], example_world)"
  by (simp add: SamplerSet_get_samples_def example_set_def Gaussian_get_samples_def)

section \<open>GaussianSampler\<close>

lemma squared_diag_entry:
  fixes v :: "'v::mult_zero list"
  shows "i < length v \<Longrightarrow> j < length v
           \<Longrightarrow> squared (diag v) ! i ! j = (if i = j then v ! i * v ! i else 0)"
  by (simp add: squared_def diag_def)

text \<open>
  C3. For a GaussianSampler and \<open>count > 0\<close>, \<open>get_samples\<close> calls
  \<open>multivariate_normal\<close> with the mean vector \<open>attribute_means\<close>, a covariance matrix that has
  the squares of \<open>attribute_stds\<close> on its diagonal and zero elsewhere, and \<open>count\<close>; when
  that call returns \<open>count\<close> vectors, \<open>get_samples\<close> returns exactly \<open>count\<close> Samples, the
  \<open>make_sample\<close> of each drawn vector in order.
\<close>

theorem Gaussian_get_samples_count:
  fixes lib :: "('v::mult_zero, 'k, 'd, 'r) library"
  assumes "0 < count"
    and "multivariate_normal lib (attribute_means self) (squared (diag (attribute_stds self)))
           count (rng w) = (Inr drawn, r)"
    and "length drawn = nat count"
  shows "Gaussian_get_samples lib self count w
           = (Inr (map (make_sample self) drawn), w\<lparr>rng := r\<rparr>)
       \<and> length (map (make_sample self) drawn) = nat count
       \<and> (\<forall>i < length (attribute_stds self). \<forall>j < length (attribute_stds self).
             squared (diag (attribute_stds self)) ! i ! j
               = (if i = j then attribute_stds self ! i * attribute_stds self ! i else 0))"
proof -
  have g: "Gaussian_get_samples lib self count w
           = (Inr (map (make_sample self) drawn), w\<lparr>rng := r\<rparr>)"
    using assms(1) by (simp add: Gaussian_get_samples_def assms(2))
  have l: "length (map (make_sample self) drawn) = nat count"
    by (simp add: assms(3))
  have c: "\<forall>i < length (attribute_stds self). \<forall>j < length (attribute_stds self).
             squared (diag (attribute_stds self)) ! i ! j
               = (if i = j then attribute_stds self ! i * attribute_stds self ! i else 0)"
    by (intro allI impI) (rule squared_diag_entry)
  show ?thesis by (intro conjI g l c)
qed

theorem Gaussian_get_samples_count_witness:
  "(0::int) < 3
   \<and> fst (Gaussian_get_samples (example_library (tool_fails 0)) example_gaussian 3 example_world)
       = Inr (map (make_sample example_gaussian) (replicate 3 [10, 20]))
   \<and> length (map (make_sample example_gaussian) (replicate 3 [10, 20 :: int])) = 3"
proof -
  let ?lib = "example_library (tool_fails 0)"
  have h1: "(0::int) < 3" by simp
  have h2: "multivariate_normal ?lib (attribute_means example_gaussian)
              (squared (diag (attribute_stds example_gaussian))) 3 (rng example_world)
              = (Inr (replicate 3 [10, 20]), Suc (rng example_world))"
    by (simp add: example_library_def example_gaussian_def)
  have h3: "length (replicate 3 [10, 20 :: int]) = nat 3" by simp
  note t = Gaussian_get_samples_count [OF h1 h2 h3]
  have "Gaussian_get_samples ?lib example_gaussian 3 example_world
           = (Inr (map (make_sample example_gaussian) (replicate 3 [10, 20])),
              example_world\<lparr>rng := Suc (rng example_world)\<rparr>)"
    using t by (rule conjunct1)
  then have g: "fst (Gaussian_get_samples ?lib example_gaussian 3 example_world)
       = Inr (map (make_sample example_gaussian) (replicate 3 [10, 20]))"
    by (simp only: fst_conv)
  have "length (map (make_sample example_gaussian) (replicate 3 [10, 20 :: int])) = nat 3"
    using t [THEN conjunct2] by (rule conjunct1)
  then have l: "length (map (make_sample example_gaussian) (replicate 3 [10, 20 :: int])) = 3"
    by simp
  show ?thesis by (intro conjI h1 g l)
qed


section \<open>KdeSampler\<close>

lemma fit_estimates_keys:
  "fit_estimates lib fixed items = Inr fitted \<Longrightarrow> name \<in> fst ` set fitted \<Longrightarrow> fixed name = None"
proof (induction items arbitrary: fitted)
  case Nil
  from Nil(1) have "fitted = []" by simp
  with Nil(2) show ?case by simp
next
  case (Cons item items)
  obtain n d where item: "item = (n, d)" by (cases item)
  show ?case
  proof (cases "fixed n = None")
    case False
    with Cons.prems(1) have fi: "fit_estimates lib fixed items = Inr fitted"
      by (simp add: item)
    show ?thesis by (rule Cons.IH [OF fi Cons.prems(2)])
  next
    case True
    with Cons.prems(1) obtain kde rest
      where rest: "fit_estimates lib fixed items = Inr rest" and f: "fitted = (n, kde) # rest"
      by (auto simp: item split: sum.splits)
    from Cons.prems(2) have "name = n \<or> name \<in> fst ` set rest"
      by (simp add: f)
    then show ?thesis
    proof
      assume "name = n"
      with True show ?thesis by simp
    next
      assume m: "name \<in> fst ` set rest"
      show ?thesis by (rule Cons.IH [OF rest m])
    qed
  qed
qed

lemma dict_None: "k \<notin> fst ` set pairs \<Longrightarrow> dict pairs k = None"
  by (simp add: dict_map_of map_of_eq_None_iff)

lemma KdeSampler_init_constant:
  assumes "KdeSampler_init lib names metric valid fixed attribute_data = Inr self"
    and "fixed name \<noteq> None"
  shows "kde_estimates self name = None"
proof -
  from assms(1) obtain fitted
    where fit: "fit_estimates lib fixed attribute_data = Inr fitted"
      and est: "kde_estimates self = dict fitted"
    by (auto simp: KdeSampler_init_def split: sum.splits)
  have "name \<notin> fst ` set fitted"
  proof
    assume "name \<in> fst ` set fitted"
    then have "fixed name = None" by (rule fit_estimates_keys [OF fit])
    with assms(2) show False by simp
  qed
  then show ?thesis by (simp add: est dict_None)
qed

lemma Kde_collect_no_estimate:
  "name \<in> set names \<Longrightarrow> kde_estimates self name = None
     \<Longrightarrow> \<exists>e. fst (Kde_collect lib self count names data r) = Inl e"
proof (induction names arbitrary: data r)
  case Nil
  then show ?case by simp
next
  case (Cons n names)
  show ?case
  proof (cases "kde_estimates self n")
    case None
    then show ?thesis by (simp add: Let_def)
  next
    case (Some kde)
    with Cons.prems have mem: "name \<in> set names" by auto
    obtain res r' where rs: "resample lib kde count r = (res, r')"
      by (cases "resample lib kde count r")
    show ?thesis
    proof (cases res)
      case (Inl e)
      then show ?thesis by (simp add: Let_def Some rs)
    next
      case (Inr drawn)
      from Cons.IH [OF mem Cons.prems(2)] show ?thesis
        by (simp add: Let_def Some rs Inr)
    qed
  qed
qed

text \<open>
  A KdeSampler as its constructor builds it has no estimate for a name of \<open>constants\<close>, so
  for \<open>count\<close> other than 0 \<open>get_samples\<close> raises as soon as \<open>attribute_names\<close> holds such
  a name: the lookup \<open>kde_estimates[name]\<close> follows the constant branch instead of being its
  alternative.
\<close>

lemma Kde_get_samples_constant_raises:
  assumes "KdeSampler_init lib names metric valid fixed attribute_data = Inr self"
    and "name \<in> set names" and "fixed name \<noteq> None" and "count \<noteq> 0"
  shows "\<exists>e. fst (Kde_get_samples lib self count w) = Inl e"
proof -
  have n: "attribute_names self = names"
    using assms(1) by (auto simp: KdeSampler_init_def split: sum.splits)
  have "kde_estimates self name = None"
    using assms(1,3) by (rule KdeSampler_init_constant)
  with assms(2) obtain e
    where "fst (Kde_collect lib self count (attribute_names self) [] (rng w)) = Inl e"
    using Kde_collect_no_estimate [of name "attribute_names self" self lib count "[]" "rng w"]
    by (auto simp: n)
  then show ?thesis
    using assms(4) by (auto simp: Kde_get_samples_def split: prod.splits sum.splits)
qed

text \<open>
  C2, at a sampler with the constant \<open>b\<close>: the constructor, given data for \<open>a\<close> and \<open>b\<close>,
  keeps an estimate for \<open>a\<close> alone, and \<open>get_samples 2\<close> raises KeyError for \<open>b\<close> where the
  claim has it return two Samples.
\<close>

theorem Kde_get_samples_constant_KeyError:
  "KdeSampler_init (example_library (tool_fails 0)) [''a'', ''b''] (\<lambda>attrs. 0) (\<lambda>attrs. True)
       [''b'' \<mapsto> 5] [(''a'', [1, 2, 3]), (''b'', [4, 5, 6])] = Inr example_kde
   \<and> fst (Kde_get_samples (example_library (tool_fails 0)) example_kde 2 example_world)
       = Inl (KeyError ''b'')"
  by (simp add: KdeSampler_init_def example_kde_def example_library_def Kde_get_samples_def
        dict_def store_def)

section \<open>ToolSampler\<close>

lemma map_float_all:
  "\<forall>part \<in> set parts. float lib part \<noteq> None
     \<Longrightarrow> map_float lib parts = Inr (map (\<lambda>part. the (float lib part)) parts)"
  by (induction parts) auto


lemma map_float_bad:
  "\<exists>part \<in> set parts. float lib part = None
     \<Longrightarrow> \<exists>part \<in> set parts. float lib part = None \<and> map_float lib parts = Inl (ValueError part)"
proof (induction parts)
  case Nil
  then show ?case by simp
next
  case (Cons p parts)
  show ?case
  proof (cases "float lib p")
    case None
    then show ?thesis by simp
  next
    case (Some x)
    with Cons.prems have "\<exists>part \<in> set parts. float lib part = None" by auto
    from Cons.IH [OF this] obtain q
      where "q \<in> set parts" "float lib q = None" "map_float lib parts = Inl (ValueError q)"
      by blast
    then show ?thesis by (auto simp: Some)
  qed
qed

lemma read_rows_bad:
  "\<exists>line \<in> set lines. \<exists>part \<in> set (str_split line). float lib part = None
     \<Longrightarrow> \<exists>line \<in> set lines. \<exists>part \<in> set (str_split line).
           float lib part = None \<and> read_rows lib lines = Inl (ValueError part)"
proof (induction lines)
  case Nil
  then show ?case by simp
next
  case (Cons l lines)
  show ?case
  proof (cases "\<exists>part \<in> set (str_split l). float lib part = None")
    case True
    from map_float_bad [OF True] obtain q
      where "q \<in> set (str_split l)" "float lib q = None"
        "map_float lib (str_split l) = Inl (ValueError q)"
      by blast
    then show ?thesis by auto
  next
    case False
    then have ok: "map_float lib (str_split l)
                     = Inr (map (\<lambda>part. the (float lib part)) (str_split l))"
      by (intro map_float_all) auto
    from False Cons.prems
    have "\<exists>line \<in> set lines. \<exists>part \<in> set (str_split line). float lib part = None"
      by auto
    from Cons.IH [OF this] obtain line q
      where "line \<in> set lines" "q \<in> set (str_split line)" "float lib q = None"
        "read_rows lib lines = Inl (ValueError q)"
      by blast
    then show ?thesis by (auto simp: ok)
  qed
qed

lemma map_float_shell: "map_float (lib\<lparr>shell := f\<rparr>) parts = map_float lib parts"
  by (induction parts) (simp_all split: option.splits)

lemma read_rows_shell: "read_rows (lib\<lparr>shell := f\<rparr>) lines = read_rows lib lines"
  by (induction lines) (simp_all add: map_float_shell split: sum.splits)

text \<open>What a call does once the noise model has returned, the parameters have been written
  and the script has left a sample buffer: the result is decided by the rows of the
  buffer, and the effects are the four steps and, for a header that differs from
  \<open>attribute_names\<close>, one warning.\<close>

lemma Tool_get_samples_read:
  assumes "count \<noteq> 0"
    and "noise_model self (params self) count (rng w) = (Inr parameter_values, r)"
    and "writable w (param_buffer self)"
    and "fst (shell lib (''source '' @ script_path self)
               ((files w)(param_buffer self \<mapsto> savetxt lib parameter_values)))
           (sample_buffer self) = Some content"
  shows "fst (Tool_get_samples lib self count w)
           = (case read_rows lib (file_lines (snd (readline content))) of
                Inl e \<Rightarrow> Inl e
              | Inr values \<Rightarrow> Inr (map (make_sample self) values))"
    and "events (snd (Tool_get_samples lib self count w))
           = events w @ [NoiseModelCall count, FileWrite (param_buffer self),
                         ProcessCall (''source '' @ script_path self),
                         FileRead (sample_buffer self)]
             @ (if str_split (rstrip (fst (readline content))) \<noteq> attribute_names self
                then [LogWarning (logger self) mismatch_warning] else [])"
  using assms by (simp_all add: Tool_get_samples_def Let_def split: sum.splits)

text \<open>When \<open>param_buffer\<close> cannot be written the call ends there with IOError: nothing is
  written, no process is run and \<open>sample_buffer\<close> is not read.\<close>

lemma Tool_get_samples_write_fails:
  assumes "count \<noteq> 0"
    and "noise_model self (params self) count (rng w) = (Inr parameter_values, r)"
    and "\<not> writable w (param_buffer self)"
  shows "Tool_get_samples lib self count w
           = (Inl (IOError (param_buffer self)),
              w\<lparr>rng := r, events := events w @ [NoiseModelCall count]\<rparr>)"
  using assms by (simp add: Tool_get_samples_def Let_def)

text \<open>
  C7 (as amended). For a ToolSampler call with \<open>count\<close> other than 0 in which the noise
  model returns and \<open>param_buffer\<close> can be written: when \<open>sample_buffer\<close> does not exist
  after the script has run, \<open>get_samples\<close> returns no samples and raises IOError; when it
  exists, its rows are parsed and the call returns the \<open>make_sample\<close> of every row, or the
  error of the first row that does not parse; the exit status of the script is not looked
  at, so the call does the same whatever status the script ends with.
\<close>

theorem Tool_get_samples_process_failure:
  assumes "count \<noteq> 0"
    and "noise_model self (params self) count (rng w) = (Inr parameter_values, r)"
    and "writable w (param_buffer self)"
  shows "(fst (shell lib (''source '' @ script_path self)
                ((files w)(param_buffer self \<mapsto> savetxt lib parameter_values)))
            (sample_buffer self) = None
          \<longrightarrow> fst (Tool_get_samples lib self count w) = Inl (IOError (sample_buffer self)))
       \<and> (\<forall>content.
             fst (shell lib (''source '' @ script_path self)
                   ((files w)(param_buffer self \<mapsto> savetxt lib parameter_values)))
               (sample_buffer self) = Some content
             \<longrightarrow> fst (Tool_get_samples lib self count w)
                   = (case read_rows lib (file_lines (snd (readline content))) of
                        Inl e \<Rightarrow> Inl e
                      | Inr values \<Rightarrow> Inr (map (make_sample self) values)))
       \<and> (\<forall>status.
             Tool_get_samples (lib\<lparr>shell := \<lambda>cmd fs. (fst (shell lib cmd fs), status)\<rparr>)
               self count w
             = Tool_get_samples lib self count w)"
proof -
  have missing: "fst (shell lib (''source '' @ script_path self)
                ((files w)(param_buffer self \<mapsto> savetxt lib parameter_values)))
            (sample_buffer self) = None
          \<longrightarrow> fst (Tool_get_samples lib self count w) = Inl (IOError (sample_buffer self))"
    using assms by (simp add: Tool_get_samples_def Let_def)
  have parsed: "\<forall>content.
             fst (shell lib (''source '' @ script_path self)
                   ((files w)(param_buffer self \<mapsto> savetxt lib parameter_values)))
               (sample_buffer self) = Some content
             \<longrightarrow> fst (Tool_get_samples lib self count w)
                   = (case read_rows lib (file_lines (snd (readline content))) of
                        Inl e \<Rightarrow> Inl e
                      | Inr values \<Rightarrow> Inr (map (make_sample self) values))"
    by (intro allI impI) (rule Tool_get_samples_read(1) [OF assms])
  have status: "\<forall>status.
             Tool_get_samples (lib\<lparr>shell := \<lambda>cmd fs. (fst (shell lib cmd fs), status)\<rparr>)
               self count w
             = Tool_get_samples lib self count w"
    using assms
    by (simp add: Tool_get_samples_def Let_def savetxt_def read_rows_shell
          split: option.splits sum.splits)
  show ?thesis by (intro conjI missing parsed status)
qed

theorem Tool_get_samples_process_failure_witness:
  "(3::int) \<noteq> 0
   \<and> writable example_world (param_buffer example_tool)
   \<and> fst (Tool_get_samples (example_library (tool_fails 1)) example_tool 3 example_world)
       = Inl (IOError ''samples.csv'')
   \<and> snd (shell (example_library (tool_writes ''samples.csv'' one_row 1))
            (''source '' @ script_path example_tool) (files example_world)) = 1
   \<and> fst (Tool_get_samples (example_library (tool_writes ''samples.csv'' one_row 1))
            example_tool 3 example_world) = Inr [make_sample example_tool [1, 2]]
   \<and> attributes (make_sample example_tool [1, 2]) ''a'' = Some 1
   \<and> attributes (make_sample example_tool [1, 2]) ''b'' = Some 2"
proof -
  let ?lib = "example_library (tool_fails 1)"
  let ?lib2 = "example_library (tool_writes ''samples.csv'' one_row 1)"
  have h1: "(3::int) \<noteq> 0" by simp
  have h2: "noise_model example_tool (params example_tool) 3 (rng example_world)
              = (Inr (replicate 3 [7]), Suc 0)"
    by (simp add: example_tool_def example_world_def)
  have h3: "writable example_world (param_buffer example_tool)"
    by (simp add: example_world_def)
  have missing: "fst (shell ?lib (''source '' @ script_path example_tool)
                ((files example_world)(param_buffer example_tool
                    \<mapsto> savetxt ?lib (replicate 3 [7]))))
            (sample_buffer example_tool) = None"
    by (simp add: example_library_def tool_fails_def example_tool_def example_world_def)
  have "fst (shell ?lib (''source '' @ script_path example_tool)
                ((files example_world)(param_buffer example_tool
                    \<mapsto> savetxt ?lib (replicate 3 [7]))))
            (sample_buffer example_tool) = None
          \<longrightarrow> fst (Tool_get_samples ?lib example_tool 3 example_world)
                = Inl (IOError (sample_buffer example_tool))"
    using Tool_get_samples_process_failure [OF h1 h2 h3] by (rule conjunct1)
  with missing have "fst (Tool_get_samples ?lib example_tool 3 example_world)
                = Inl (IOError (sample_buffer example_tool))"
    by (rule rev_mp)
  then have e: "fst (Tool_get_samples ?lib example_tool 3 example_world)
                = Inl (IOError ''samples.csv'')"
    by (simp add: example_tool_def)
  have st: "snd (shell ?lib2 (''source '' @ script_path example_tool) (files example_world)) = 1"
    by (simp add: example_library_def tool_writes_def)
  have present: "fst (shell ?lib2 (''source '' @ script_path example_tool)
                ((files example_world)(param_buffer example_tool
                    \<mapsto> savetxt ?lib2 (replicate 3 [7]))))
            (sample_buffer example_tool) = Some one_row"
    by (simp add: example_library_def tool_writes_def example_tool_def)
  have al: "\<forall>content.
             fst (shell ?lib2 (''source '' @ script_path example_tool)
                   ((files example_world)(param_buffer example_tool
                       \<mapsto> savetxt ?lib2 (replicate 3 [7]))))
               (sample_buffer example_tool) = Some content
             \<longrightarrow> fst (Tool_get_samples ?lib2 example_tool 3 example_world)
                   = (case read_rows ?lib2 (file_lines (snd (readline content))) of
                        Inl e \<Rightarrow> Inl e
                      | Inr values \<Rightarrow> Inr (map (make_sample example_tool) values))"
    using Tool_get_samples_process_failure [OF h1 h2 h3, of ?lib2, THEN conjunct2]
    by (rule conjunct1)
  have "fst (Tool_get_samples ?lib2 example_tool 3 example_world)
                   = (case read_rows ?lib2 (file_lines (snd (readline one_row))) of
                        Inl e \<Rightarrow> Inl e
                      | Inr values \<Rightarrow> Inr (map (make_sample example_tool) values))"
    by (rule al [rule_format, OF present])
  then have p: "fst (Tool_get_samples ?lib2 example_tool 3 example_world)
                  = Inr [make_sample example_tool [1, 2]]"
    by (simp add: one_row_def newline_def example_library_def example_float_def
          rstrip_def isspace_def)
  have a: "attributes (make_sample example_tool [1, 2]) ''a'' = Some 1"
    by (simp add: make_sample_def update_def dict_def store_def example_tool_def)
  have b: "attributes (make_sample example_tool [1, 2]) ''b'' = Some 2"
    by (simp add: make_sample_def update_def dict_def store_def example_tool_def)
  show ?thesis by (intro conjI h1 h3 e st p a b)
qed

text \<open>
  C7 as stated fails: a script that ends with status 1 and leaves a sample buffer holding
  the header alone makes \<open>get_samples 3\<close> return the empty list, with no error.
\<close>

theorem Tool_get_samples_failed_script_counterexample:
  "snd (shell (example_library (tool_writes ''samples.csv'' header_only 1))
          (''source '' @ script_path example_tool) (files example_world)) = 1
   \<and> fst (Tool_get_samples (example_library (tool_writes ''samples.csv'' header_only 1))
            example_tool 3 example_world) = Inr []"
  by (simp add: Tool_get_samples_def Let_def example_library_def tool_writes_def
        example_tool_def example_world_def header_only_def newline_def)



text \<open>
  C9 (as amended). For a ToolSampler call with \<open>count\<close> other than 0 in which the noise
  model returns, \<open>param_buffer\<close> can be written and the script leaves a sample buffer with
  a data row that has a field which is no number: \<open>get_samples\<close> returns no samples and
  raises the ValueError of \<open>float\<close> for such a field; the error holds the text of the field.
\<close>

theorem Tool_get_samples_malformed_row:
  assumes "count \<noteq> 0"
    and "noise_model self (params self) count (rng w) = (Inr parameter_values, r)"
    and "writable w (param_buffer self)"
    and "fst (shell lib (''source '' @ script_path self)
               ((files w)(param_buffer self \<mapsto> savetxt lib parameter_values)))
           (sample_buffer self) = Some content"
    and "\<exists>line \<in> set (file_lines (snd (readline content))).
           \<exists>part \<in> set (str_split line). float lib part = None"
  shows "\<exists>line \<in> set (file_lines (snd (readline content))).
           \<exists>part \<in> set (str_split line).
             float lib part = None
             \<and> fst (Tool_get_samples lib self count w) = Inl (ValueError part)"
proof -
  from read_rows_bad [OF assms(5)] obtain line part
    where l: "line \<in> set (file_lines (snd (readline content)))"
      and p: "part \<in> set (str_split line)"
      and n: "float lib part = None"
      and rows: "read_rows lib (file_lines (snd (readline content))) = Inl (ValueError part)"
    by (elim bexE conjE)
  have "fst (Tool_get_samples lib self count w) = Inl (ValueError part)"
    by (simp add: Tool_get_samples_read(1) [OF assms(1,2,3,4)] rows)
  with n have "float lib part = None
             \<and> fst (Tool_get_samples lib self count w) = Inl (ValueError part)"
    by (rule conjI)
  with l p show ?thesis by (intro bexI)
qed

theorem Tool_get_samples_malformed_row_witness:
  "(2::int) \<noteq> 0
   \<and> writable example_world (param_buffer example_tool)
   \<and> (\<exists>line \<in> set (file_lines (snd (readline bad_first_row))).
         \<exists>part \<in> set (str_split line).
           example_float part = None
           \<and> fst (Tool_get_samples (example_library (tool_writes ''samples.csv'' bad_first_row 0))
                    example_tool 2 example_world) = Inl (ValueError part))"
proof -
  let ?lib = "example_library (tool_writes ''samples.csv'' bad_first_row 0)"
  have fl: "float ?lib = example_float" by (simp add: example_library_def)
  have h1: "(2::int) \<noteq> 0" by simp
  have h2: "noise_model example_tool (params example_tool) 2 (rng example_world)
              = (Inr (replicate 2 [7]), Suc 0)"
    by (simp add: example_tool_def example_world_def)
  have hw: "writable example_world (param_buffer example_tool)"
    by (simp add: example_world_def)
  have h3: "fst (shell ?lib (''source '' @ script_path example_tool)
               ((files example_world)(param_buffer example_tool
                   \<mapsto> savetxt ?lib (replicate 2 [7]))))
           (sample_buffer example_tool) = Some bad_first_row"
    by (simp add: example_library_def tool_writes_def example_tool_def)
  have h4: "\<exists>line \<in> set (file_lines (snd (readline bad_first_row))).
           \<exists>part \<in> set (str_split line). float ?lib part = None"
    by (simp add: example_library_def bad_first_row_def newline_def example_float_def
          rstrip_def isspace_def)
  have t: "\<exists>line \<in> set (file_lines (snd (readline bad_first_row))).
         \<exists>part \<in> set (str_split line).
           example_float part = None
           \<and> fst (Tool_get_samples ?lib example_tool 2 example_world) = Inl (ValueError part)"
    using Tool_get_samples_malformed_row [OF h1 h2 hw h3 h4] by (simp only: fl)
  show ?thesis by (intro conjI h1 hw t)
qed

text \<open>
  C9 as stated fails in what the error identifies: the same rows in another order, with
  the text \<open>x\<close> in the first or in the second data row, raise the same error.
\<close>

theorem Tool_get_samples_row_not_identified_counterexample:
  "fst (Tool_get_samples (example_library (tool_writes ''samples.csv'' bad_first_row 0))
          example_tool 2 example_world) = Inl (ValueError ''x'')
   \<and> fst (Tool_get_samples (example_library (tool_writes ''samples.csv'' bad_second_row 0))
            example_tool 2 example_world) = Inl (ValueError ''x'')
   \<and> bad_first_row \<noteq> bad_second_row"
  by (simp add: Tool_get_samples_def Let_def example_library_def tool_writes_def
        example_tool_def example_world_def bad_first_row_def bad_second_row_def newline_def
        example_float_def rstrip_def isspace_def)

text \<open>With no writable path the same call raises IOError for \<open>param_buffer\<close> and leaves
  the files as they were.\<close>

lemma Tool_get_samples_read_only_world:
  "Tool_get_samples (example_library (tool_writes ''samples.csv'' one_row 0))
     example_tool 3 read_only_world
   = (Inl (IOError ''params.csv''),
      read_only_world\<lparr>rng := Suc 0, events := [NoiseModelCall 3]\<rparr>)"
  by (simp add: Tool_get_samples_def Let_def example_tool_def read_only_world_def)

end
